theory Spec2Isabelle
  imports Complex_Main
begin

section \<open>Data model: the interfaces of App.tsx\<close>

text \<open>
  Every optional field (\<^verbatim>\<open>title?: string\<close>) is an \<open>option\<close>: \<open>None\<close> is JavaScript's
  \<^verbatim>\<open>undefined\<close>. Strings are \<open>string\<close>; a JavaScript number is a \<open>real\<close> where the
  code only stores and copies it (\<^verbatim>\<open>maxProfiles\<close>, the scores) and an \<open>int\<close> where it
  is an index the code does integer arithmetic on. Several interfaces share field names;
  the qualified selector (\<open>role.title\<close>, \<open>experience.title\<close>, \<open>profile.title\<close>) tells
  them apart.
\<close>

record role =
  title :: "string option"
  dateRange :: "string option"
  location :: "string option"
  description :: "string list option"

record experience =
  company :: string
  roles :: "role list option"
  dateRange :: "string option"
  description :: "string list option"
  location :: "string option"
  title :: "string option"
  skills :: "string option"

record education =
  institution :: string
  degree :: string
  date :: string
  details :: "string list"

record scored =
  score :: real
  explanation :: string

record evaluation =
  personal_information :: scored
  education :: scored
  work_experience :: scored
  overall_score :: real
  actionable_insights :: "string list"

record profile =
  name :: "string option"
  location :: "string option"
  profile_url :: "string option"
  title :: "string option"
  experiences :: "experience list option"
  education :: "education list option"
  evaluation :: "evaluation option"

section \<open>Component state and the outside world\<close>

text \<open>
  The six \<^verbatim>\<open>useState\<close> cells of \<^verbatim>\<open>App\<close>. An entry of \<open>profiles\<close> is a
  \<open>profile option\<close>: the array is typed \<^verbatim>\<open>Profile[]\<close>, but \<^verbatim>\<open>[data.profile]\<close> stores
  \<^verbatim>\<open>undefined\<close> (\<open>None\<close>) when the response has no \<^verbatim>\<open>profile\<close> field.
\<close>

record app_state =
  linkedinUrl :: string
  sessionCookie :: string
  maxProfiles :: real
  isRunning :: bool
  profiles :: "profile option list"
  currentProfileIndex :: int

definition initial_state :: app_state where
  "initial_state =
     \<lparr>linkedinUrl = [], sessionCookie = [], maxProfiles = 1, isRunning = False,
      profiles = [], currentProfileIndex = 0\<rparr>"

text \<open>The body of the POST request, \<^verbatim>\<open>{url, session_cookie, limit}\<close>.\<close>

record scrape_request =
  url :: string
  session_cookie :: string
  limit :: real

text \<open>
  The parsed response \<^verbatim>\<open>data\<close>: an object read at \<^verbatim>\<open>data.error\<close> and
  \<^verbatim>\<open>data.profile\<close>, either of which may be missing. \<^verbatim>\<open>data.profile\<close> is one profile
  object or an array of them.
\<close>

datatype profile_payload = Single profile | Many "profile list"

record response_data =
  error :: "string option"
  profile :: "profile_payload option"

text \<open>
  What the awaited request comes to. \<open>Rejected\<close> is every exception thrown inside the
  \<^verbatim>\<open>try\<close> block (\<^verbatim>\<open>fetch\<close> rejects, the body is not JSON, the body is \<^verbatim>\<open>null\<close> so
  that reading \<^verbatim>\<open>data.error\<close> throws): control goes to \<^verbatim>\<open>catch\<close>. The HTTP status is
  never looked at.
\<close>

datatype fetch_outcome = Rejected | Resolved response_data

text \<open>
  A spreadsheet row is the object literal built by \<^verbatim>\<open>exportToExcel\<close>: its keys in order,
  each with a string value. The SheetJS calls are kept as data: \<open>Json_to_sheet rows\<close> is
  the worksheet made from the rows, a workbook is its list of named sheets.
\<close>

type_synonym row = "(string \<times> string) list"

datatype worksheet = Json_to_sheet "row list"

type_synonym workbook = "(string \<times> worksheet) list"

definition book_new :: workbook where
  "book_new = []"

definition book_append_sheet :: "workbook \<Rightarrow> worksheet \<Rightarrow> string \<Rightarrow> workbook" where
  "book_append_sheet wb ws nm = wb @ [(nm, ws)]"

datatype js_error = TypeError

text \<open>
  Everything a handler does besides updating the state, in the order it does it: a toast
  (the user-facing notice), the outbound request, console output, the file download, and
  an exception that leaves the handler uncaught.
\<close>

datatype effect =
    Toast_error string
  | Toast_success string
  | Fetch string scrape_request
  | Console_log response_data
  | Console_error
  | WriteFile workbook string
  | Uncaught js_error

fun is_Fetch :: "effect \<Rightarrow> bool" where
  "is_Fetch (Fetch _ _) = True"
| "is_Fetch _ = False"

fun is_Toast :: "effect \<Rightarrow> bool" where
  "is_Toast (Toast_error _) = True"
| "is_Toast (Toast_success _) = True"
| "is_Toast _ = False"

fun is_WriteFile :: "effect \<Rightarrow> bool" where
  "is_WriteFile (WriteFile _ _) = True"
| "is_WriteFile _ = False"

section \<open>JavaScript truthiness on optional strings\<close>

text \<open>\<^verbatim>\<open>undefined\<close> and the empty string are falsy; every other string is truthy.\<close>

definition truthy :: "string option \<Rightarrow> bool" where
  "truthy v = (case v of None \<Rightarrow> False | Some s \<Rightarrow> s \<noteq> [])"

text \<open>\<^verbatim>\<open>v || d\<close>\<close>

definition js_or :: "string option \<Rightarrow> string \<Rightarrow> string" where
  "js_or v d = (case v of None \<Rightarrow> d | Some s \<Rightarrow> if s = [] then d else s)"

section \<open>The handlers\<close>

subsection \<open>handleSubmit\<close>

definition endpoint :: string where
  "endpoint = ''http://127.0.0.1:8000/linkedin/scrape_by_url''"

text \<open>
  \<^verbatim>\<open>handleSubmit\<close> up to its \<^verbatim>\<open>await\<close>: the presence check on the two text inputs,
  \<^verbatim>\<open>setIsRunning(true)\<close>, and the request (a POST of the JSON body to the fixed
  endpoint). The strings are state cells, so \<^verbatim>\<open>!linkedinUrl\<close> is "is empty".
  \<^verbatim>\<open>maxProfiles\<close> is read here only, as the \<^verbatim>\<open>limit\<close> of the body.
\<close>

definition handleSubmit_begin :: "app_state \<Rightarrow> app_state \<times> effect list" where
  "handleSubmit_begin st =
     (if linkedinUrl st = [] \<or> sessionCookie st = []
      then (st, [Toast_error ''Please fill in all required fields''])
      else (st\<lparr>isRunning := True\<rparr>,
            [Fetch endpoint
               \<lparr>url = linkedinUrl st, session_cookie = sessionCookie st,
                limit = maxProfiles st\<rparr>]))"

text \<open>\<^verbatim>\<open>Array.isArray(data.profile) ? data.profile : [data.profile]\<close>\<close>

definition normalize_profile :: "profile_payload option \<Rightarrow> profile option list" where
  "normalize_profile v =
     (case v of
        Some (Many ps) \<Rightarrow> map Some ps
      | Some (Single p) \<Rightarrow> [Some p]
      | None \<Rightarrow> [None])"

text \<open>
  \<^verbatim>\<open>handleSubmit\<close> from the point where the awaited request settles: the
  \<^verbatim>\<open>if (data.error)\<close> test, the \<^verbatim>\<open>catch\<close> and the \<^verbatim>\<open>finally\<close>. The state updates
  of one run are applied together.
\<close>

definition handleSubmit_settle :: "app_state \<Rightarrow> fetch_outcome \<Rightarrow> app_state \<times> effect list" where
  "handleSubmit_settle st outcome =
     (case outcome of
        Rejected \<Rightarrow>
          (st\<lparr>isRunning := False\<rparr>, [Toast_error ''Failed to scrape profiles'', Console_error])
      | Resolved data \<Rightarrow>
          (let loaded =
                 (st\<lparr>profiles := normalize_profile (profile data),
                     currentProfileIndex := 0, isRunning := False\<rparr>,
                  [Console_log data, Toast_success ''Profiles scraped successfully!''])
           in case error data of
                None \<Rightarrow> loaded
              | Some e \<Rightarrow>
                  if e = [] then loaded
                  else (st\<lparr>isRunning := False\<rparr>, [Console_log data, Toast_error e])))"

text \<open>
  One whole run of \<^verbatim>\<open>handleSubmit\<close> with no other event in between; \<open>outcome\<close> is what
  the \<^verbatim>\<open>await\<close> yields when a request was made.
\<close>

definition handleSubmit :: "app_state \<Rightarrow> fetch_outcome \<Rightarrow> app_state \<times> effect list" where
  "handleSubmit st outcome =
     (if linkedinUrl st = [] \<or> sessionCookie st = []
      then handleSubmit_begin st
      else (fst (handleSubmit_settle (fst (handleSubmit_begin st)) outcome),
            snd (handleSubmit_begin st) @
            snd (handleSubmit_settle (fst (handleSubmit_begin st)) outcome)))"

subsection \<open>goToPrevious, goToNext\<close>

definition goToPrevious :: "app_state \<Rightarrow> app_state" where
  "goToPrevious st =
     st\<lparr>currentProfileIndex :=
          (if currentProfileIndex st > 0 then currentProfileIndex st - 1
           else currentProfileIndex st)\<rparr>"

definition goToNext :: "app_state \<Rightarrow> app_state" where
  "goToNext st =
     st\<lparr>currentProfileIndex :=
          (if currentProfileIndex st < int (length (profiles st)) - 1
           then currentProfileIndex st + 1
           else currentProfileIndex st)\<rparr>"

subsection \<open>exportToExcel\<close>

text \<open>
  The object literal of the \<^verbatim>\<open>map\<close> callback. Reading \<^verbatim>\<open>profile.name\<close> of an
  \<^verbatim>\<open>undefined\<close> entry throws a TypeError.
\<close>

definition export_row :: "profile option \<Rightarrow> js_error + row" where
  "export_row entry =
     (case entry of
        None \<Rightarrow> Inl TypeError
      | Some p \<Rightarrow>
          Inr [(''name'', js_or (name p) []),
               (''profile_url'', js_or (profile_url p) []),
               (''title'', js_or (profile.title p) []),
               (''location'', js_or (profile.location p) [])])"

text \<open>\<^verbatim>\<open>profiles.map(...)\<close>, left to right; the first exception ends it.\<close>

fun export_rows :: "profile option list \<Rightarrow> js_error + row list" where
  "export_rows [] = Inr []"
| "export_rows (entry # rest) =
     (case export_row entry of
        Inl e \<Rightarrow> Inl e
      | Inr r \<Rightarrow>
          (case export_rows rest of
             Inl e \<Rightarrow> Inl e
           | Inr rs \<Rightarrow> Inr (r # rs)))"

definition exportToExcel :: "app_state \<Rightarrow> app_state \<times> effect list" where
  "exportToExcel st =
     (if length (profiles st) = 0
      then (st, [Toast_error ''No profiles to export''])
      else (case export_rows (profiles st) of
              Inl e \<Rightarrow> (st, [Uncaught e])
            | Inr exportData \<Rightarrow>
                (st, [WriteFile
                        (book_append_sheet book_new (Json_to_sheet exportData) ''Profiles'')
                        ''profiles.xlsx''])))"

section \<open>Rendering an experience record\<close>

text \<open>
  The JSX of the experience section as a tree of elements and text; class names are left
  out. A child \<^verbatim>\<open>{v}\<close> that is \<^verbatim>\<open>undefined\<close> renders nothing, and so does
  \<^verbatim>\<open>{c && <p>...</p>}\<close> when \<^verbatim>\<open>c\<close> is falsy.
\<close>

datatype node = Element string "node list" | Text string

text \<open>\<^verbatim>\<open>{v}\<close>\<close>

definition text_child :: "string option \<Rightarrow> node list" where
  "text_child v = (case v of None \<Rightarrow> [] | Some s \<Rightarrow> [Text s])"

text \<open>\<^verbatim>\<open>{v && (<p>{v}</p>)}\<close>\<close>

definition paragraph_if :: "string option \<Rightarrow> node list" where
  "paragraph_if v =
     (case v of
        None \<Rightarrow> []
      | Some s \<Rightarrow> if s = [] then [] else [Element ''p'' [Text s]])"

text \<open>\<^verbatim>\<open>{ds && ds.length > 0 && (<ul>{ds.map((desc) => <li>{desc}</li>)}</ul>)}\<close>\<close>

definition bullet_list :: "string list option \<Rightarrow> node list" where
  "bullet_list v =
     (case v of
        None \<Rightarrow> []
      | Some ds \<Rightarrow>
          if length ds > 0 then [Element ''ul'' (map (\<lambda>desc. Element ''li'' [Text desc]) ds)]
          else [])"

text \<open>The callback of \<^verbatim>\<open>exp.roles.map\<close>: the title paragraph is always there.\<close>

definition render_role :: "role \<Rightarrow> node" where
  "render_role r =
     Element ''div''
       ([Element ''p'' (text_child (role.title r))]
        @ paragraph_if (role.dateRange r)
        @ paragraph_if (role.location r)
        @ bullet_list (role.description r))"

text \<open>The "Single role" branch: the flat fields of the experience record itself.\<close>

definition render_flat :: "experience \<Rightarrow> node" where
  "render_flat ex =
     Element ''div''
       (paragraph_if (experience.title ex)
        @ paragraph_if (experience.dateRange ex)
        @ paragraph_if (experience.location ex)
        @ bullet_list (experience.description ex))"

text \<open>
  The callback of \<^verbatim>\<open>currentProfile.experiences.map\<close>. The test \<^verbatim>\<open>exp.roles ? ... : ...\<close>
  is on the array itself, and every array is truthy, the empty one too.
\<close>

definition render_experience :: "experience \<Rightarrow> node" where
  "render_experience ex =
     Element ''div''
       [Element ''div''
          [Element ''h5'' [Text (company ex)],
           (case roles ex of
              Some rs \<Rightarrow> Element ''div'' (map render_role rs)
            | None \<Rightarrow> render_flat ex)]]"

text \<open>The experience section of the current profile.\<close>

definition render_experiences :: "experience list option \<Rightarrow> node list" where
  "render_experiences v =
     (case v of
        None \<Rightarrow> []
      | Some exps \<Rightarrow>
          if length exps > 0
          then [Element ''div''
                  [Element ''h4'' [Text ''Experience''],
                   Element ''div'' (map render_experience exps)]]
          else [])"

text \<open>The text a tree shows, in document order.\<close>

fun texts :: "node \<Rightarrow> string list" where
  "texts (Text s) = [s]"
| "texts (Element tag children) = concat (map texts children)"

text \<open>What a field shows when it is rendered under \<^verbatim>\<open>{v && ...}\<close>: nothing when falsy.\<close>

definition shown :: "string option \<Rightarrow> string list" where
  "shown v = (case v of None \<Rightarrow> [] | Some s \<Rightarrow> if s = [] then [] else [s])"

section \<open>The user interface as a transition system\<close>

text \<open>
  The component together with the number of requests that were sent and have not settled
  yet. Handlers run one at a time, each to its next \<^verbatim>\<open>await\<close> or its end.
\<close>

record ui =
  app :: app_state
  in_flight :: nat

definition initial_ui :: ui where
  "initial_ui = \<lparr>app = initial_state, in_flight = 0\<rparr>"

datatype event =
    Submit
  | Settle fetch_outcome
  | Click_previous
  | Click_next
  | Click_export
  | Change_linkedinUrl string
  | Change_sessionCookie string
  | Change_maxProfiles real

text \<open>
  One event. \<open>None\<close> means the event cannot happen in this state:
  \<^item> \<open>Submit\<close>: the submit button is rendered with \<^verbatim>\<open>disabled={isRunning}\<close>, and a disabled
    submit button does not submit its form;
  \<^item> \<open>Settle\<close>: a response or a failure arrives only for a request that is outstanding.
  The three click handlers and the three \<^verbatim>\<open>onChange\<close> handlers are allowed in every
  state, which is more than the rendered buttons allow. Likewise \<open>Submit\<close> is every run of
  \<^verbatim>\<open>handleSubmit\<close> that the button allows, with whatever the state cells hold: the
  browser's validation of the inputs (\<^verbatim>\<open>required\<close>, \<^verbatim>\<open>min\<close>, \<^verbatim>\<open>max\<close>), which lets fewer
  submits through, is \<open>submit_form\<close> below. A request that is sent adds one to
  \<open>in_flight\<close>; its settling takes one off.
\<close>

definition step :: "ui \<Rightarrow> event \<Rightarrow> (ui \<times> effect list) option" where
  "step u ev =
     (case ev of
        Submit \<Rightarrow>
          if isRunning (app u) then None
          else (case handleSubmit_begin (app u) of
                  (st, es) \<Rightarrow>
                    Some (\<lparr>app = st, in_flight = in_flight u + length (filter is_Fetch es)\<rparr>, es))
      | Settle outcome \<Rightarrow>
          if in_flight u = 0 then None
          else (case handleSubmit_settle (app u) outcome of
                  (st, es) \<Rightarrow> Some (\<lparr>app = st, in_flight = in_flight u - 1\<rparr>, es))
      | Click_previous \<Rightarrow> Some (u\<lparr>app := goToPrevious (app u)\<rparr>, [])
      | Click_next \<Rightarrow> Some (u\<lparr>app := goToNext (app u)\<rparr>, [])
      | Click_export \<Rightarrow>
          (case exportToExcel (app u) of (st, es) \<Rightarrow> Some (u\<lparr>app := st\<rparr>, es))
      | Change_linkedinUrl v \<Rightarrow> Some (u\<lparr>app := (app u)\<lparr>linkedinUrl := v\<rparr>\<rparr>, [])
      | Change_sessionCookie v \<Rightarrow> Some (u\<lparr>app := (app u)\<lparr>sessionCookie := v\<rparr>\<rparr>, [])
      | Change_maxProfiles v \<Rightarrow> Some (u\<lparr>app := (app u)\<lparr>maxProfiles := v\<rparr>\<rparr>, []))"

text \<open>A sequence of events from a state; \<open>None\<close> when one of them cannot happen.\<close>

fun run :: "ui \<Rightarrow> event list \<Rightarrow> ui option" where
  "run u [] = Some u"
| "run u (ev # evs) =
     (case step u ev of
        None \<Rightarrow> None
      | Some (u', es) \<Rightarrow> run u' evs)"

text \<open>The carousel index points into the list, whenever the list has an entry.\<close>

definition carousel_inv :: "app_state \<Rightarrow> bool" where
  "carousel_inv st =
     (0 \<le> currentProfileIndex st \<and>
      (profiles st \<noteq> [] \<longrightarrow> currentProfileIndex st \<le> int (length (profiles st)) - 1))"

text \<open>The flag \<^verbatim>\<open>isRunning\<close> is up exactly while one request is outstanding.\<close>

definition flight_inv :: "ui \<Rightarrow> bool" where
  "flight_inv u = (in_flight u = (if isRunning (app u) then 1 else 0))"

section \<open>The form and the browser's validation of it\<close>

text \<open>
  \<^verbatim>\<open>handleSubmit\<close> is attached at one place, \<^verbatim>\<open><form onSubmit={handleSubmit}>\<close>, and the
  form has no \<^verbatim>\<open>noValidate\<close>. A submit through its button (\<^verbatim>\<open>type="submit"\<close>,
  \<^verbatim>\<open>disabled={isRunning}\<close>) does nothing while the button is disabled; otherwise the
  browser first checks the three controls against their attributes, in document order.
  When one fails it shows its validation message at the first that does and fires no
  submit event, so the handler does not run. Each control shows its state cell
  (\<^verbatim>\<open>value={...}\<close>), so the checks are on the cells:
  \<^item> \<^verbatim>\<open>linkedinUrl\<close>, \<^verbatim>\<open>type="url" required\<close>: fails when empty or not an absolute URL.
    What counts as an absolute URL is the browser's URL parser; it is the parameter
    \<open>valid_url\<close>.
  \<^item> \<^verbatim>\<open>sessionCookie\<close>, \<^verbatim>\<open>required\<close>: fails when empty.
  \<^item> \<^verbatim>\<open>maxProfiles\<close>, \<^verbatim>\<open>type="number" min="1" max="5"\<close> and no \<^verbatim>\<open>step\<close>: fails below
    the minimum, above the maximum, and off the default step of 1 counted from the
    minimum.
\<close>

definition maxProfiles_min :: real where
  "maxProfiles_min = 1"

definition maxProfiles_max :: real where
  "maxProfiles_max = 5"

definition number_input_valid :: "real \<Rightarrow> bool" where
  "number_input_valid v =
     (maxProfiles_min \<le> v \<and> v \<le> maxProfiles_max \<and>
      real_of_int \<lfloor>v - maxProfiles_min\<rfloor> = v - maxProfiles_min)"

text \<open>The \<^verbatim>\<open>id\<close> of the first control that fails, if any.\<close>

definition first_invalid :: "(string \<Rightarrow> bool) \<Rightarrow> app_state \<Rightarrow> string option" where
  "first_invalid valid_url st =
     (if linkedinUrl st = [] \<or> \<not> valid_url (linkedinUrl st) then Some ''linkedinUrl''
      else if sessionCookie st = [] then Some ''sessionCookie''
      else if \<not> number_input_valid (maxProfiles st) then Some ''maxProfiles''
      else None)"

text \<open>
  What a submit through the form comes to: nothing (the button is disabled), the
  browser's validation message at a control, or a run of \<^verbatim>\<open>handleSubmit\<close> up to its
  \<^verbatim>\<open>await\<close>.
\<close>

datatype form_outcome =
    Button_disabled
  | Validation_message string
  | Handler_ran "app_state \<times> effect list"

definition submit_form :: "(string \<Rightarrow> bool) \<Rightarrow> app_state \<Rightarrow> form_outcome" where
  "submit_form valid_url st =
     (if isRunning st then Button_disabled
      else (case first_invalid valid_url st of
              Some control \<Rightarrow> Validation_message control
            | None \<Rightarrow> Handler_ran (handleSubmit_begin st)))"

text \<open>The effects of the handler, when it ran, and the state the submit leaves.\<close>

fun effects_of :: "form_outcome \<Rightarrow> effect list" where
  "effects_of (Handler_ran (st, es)) = es"
| "effects_of _ = []"

fun state_after :: "app_state \<Rightarrow> form_outcome \<Rightarrow> app_state" where
  "state_after st0 (Handler_ran (st, es)) = st"
| "state_after st0 _ = st0"

section \<open>Sample values\<close>

definition sample_role :: role where
  "sample_role =
     \<lparr>role.title = Some ''Lead'', role.dateRange = Some ''2020 - 2023'',
      role.location = None, role.description = Some [''Ran the team'']\<rparr>"

definition sample_experience :: experience where
  "sample_experience =
     \<lparr>company = ''Acme'', roles = Some [sample_role],
      experience.dateRange = Some ''2018 - 2023'', experience.description = Some [''Flat text''],
      experience.location = Some ''Pune'', experience.title = Some ''Flat title'',
      skills = None\<rparr>"

definition sample_profile :: profile where
  "sample_profile =
     \<lparr>name = Some ''Ada'', profile.location = None,
      profile_url = Some ''https://www.linkedin.com/in/ada'', profile.title = Some [],
      experiences = Some [sample_experience], profile.education = None, evaluation = None\<rparr>"

definition other_profile :: profile where
  "other_profile =
     \<lparr>name = Some ''Bo'', profile.location = Some ''Oslo'', profile_url = None,
      profile.title = Some ''Analyst'', experiences = None, profile.education = None,
      evaluation = None\<rparr>"

definition sample_state :: app_state where
  "sample_state =
     \<lparr>linkedinUrl = ''https://www.linkedin.com/search/results/people/'',
      sessionCookie = ''li_at'', maxProfiles = 2, isRunning = False,
      profiles = [Some sample_profile, Some other_profile], currentProfileIndex = 1\<rparr>"

section \<open>Navigation\<close>

text \<open>
  C1. For a profile list of length \<open>N \<ge> 1\<close> and an index \<open>i\<close> in \<open>[0, N - 1]\<close>:
  \<^verbatim>\<open>goToPrevious\<close> leaves the state as it is at \<open>i = 0\<close> and otherwise makes the index
  \<open>i - 1\<close>; \<^verbatim>\<open>goToNext\<close> leaves the state as it is at \<open>i = N - 1\<close> and otherwise makes
  the index \<open>i + 1\<close>; the index after either stays in \<open>[0, N - 1]\<close>, so neither wraps.
\<close>

theorem navigation_clamped:
  assumes "length (profiles st) = N" and "1 \<le> N"
    and "currentProfileIndex st = i" and "0 \<le> i" and "i \<le> int N - 1"
  shows "(if i = 0 then goToPrevious st = st
          else currentProfileIndex (goToPrevious st) = i - 1)
       \<and> (if i = int N - 1 then goToNext st = st
          else currentProfileIndex (goToNext st) = i + 1)
       \<and> 0 \<le> currentProfileIndex (goToPrevious st)
       \<and> currentProfileIndex (goToPrevious st) \<le> int N - 1
       \<and> 0 \<le> currentProfileIndex (goToNext st)
       \<and> currentProfileIndex (goToNext st) \<le> int N - 1"
  using assms by (auto simp: goToPrevious_def goToNext_def)

text \<open>
  Two profiles, index 1 (the last): next changes nothing, previous goes to 0, where
  previous changes nothing and next goes back to 1.
\<close>

theorem navigation_clamped_witness:
  "length (profiles sample_state) = 2 \<and> currentProfileIndex sample_state = 1
   \<and> currentProfileIndex (goToPrevious sample_state) = 0
   \<and> goToNext sample_state = sample_state
   \<and> goToPrevious (goToPrevious sample_state) = goToPrevious sample_state
   \<and> currentProfileIndex (goToNext (goToPrevious sample_state)) = 1"
proof -
  have len: "length (profiles sample_state) = 2" and idx: "currentProfileIndex sample_state = 1"
    by (simp_all add: sample_state_def)
  have len': "length (profiles (goToPrevious sample_state)) = 2"
    and idx': "currentProfileIndex (goToPrevious sample_state) = 0"
    by (simp_all add: sample_state_def goToPrevious_def)
  from navigation_clamped [OF len _ idx] navigation_clamped [OF len' _ idx'] len idx
  show ?thesis by simp
qed

text \<open>
  C10. \<^verbatim>\<open>goToPrevious\<close> and \<^verbatim>\<open>goToNext\<close> change no cell but the carousel index: the
  profile list and the three form inputs are as before. \<^verbatim>\<open>exportToExcel\<close> leaves the
  whole component state as it was.
\<close>

theorem navigation_and_export_frame:
  "goToPrevious st = st\<lparr>currentProfileIndex := currentProfileIndex (goToPrevious st)\<rparr>
   \<and> goToNext st = st\<lparr>currentProfileIndex := currentProfileIndex (goToNext st)\<rparr>
   \<and> profiles (goToPrevious st) = profiles st \<and> profiles (goToNext st) = profiles st
   \<and> linkedinUrl (goToPrevious st) = linkedinUrl st \<and> linkedinUrl (goToNext st) = linkedinUrl st
   \<and> sessionCookie (goToPrevious st) = sessionCookie st
   \<and> sessionCookie (goToNext st) = sessionCookie st
   \<and> maxProfiles (goToPrevious st) = maxProfiles st \<and> maxProfiles (goToNext st) = maxProfiles st
   \<and> fst (exportToExcel st) = st"
  by (simp add: goToPrevious_def goToNext_def exportToExcel_def split: sum.splits)

theorem navigation_and_export_frame_witness:
  "goToPrevious sample_state = sample_state\<lparr>currentProfileIndex := 0\<rparr>
   \<and> goToNext (goToPrevious sample_state) = sample_state
   \<and> fst (exportToExcel sample_state) = sample_state"
  using navigation_and_export_frame [of sample_state]
    navigation_and_export_frame [of "goToPrevious sample_state"]
  by (simp add: goToPrevious_def goToNext_def sample_state_def)

section \<open>Submitting\<close>

text \<open>
  C2. A response without an error field replaces the stored list: a single profile object
  gives the one-element list holding it, an array of \<open>N\<close> profiles gives those \<open>N\<close>
  entries in order. The carousel index becomes 0, and the list stored before plays no
  part in the new one. With both text inputs filled in, a whole run of
  \<^verbatim>\<open>handleSubmit\<close> ends in that same state.
\<close>

theorem submit_success_replaces:
  assumes "error d = None"
  shows "(profile d = Some (Single p) \<longrightarrow>
            profiles (fst (handleSubmit_settle st (Resolved d))) = [Some p])
       \<and> (profile d = Some (Many ps) \<longrightarrow>
            profiles (fst (handleSubmit_settle st (Resolved d))) = map Some ps
            \<and> length (profiles (fst (handleSubmit_settle st (Resolved d)))) = length ps)
       \<and> currentProfileIndex (fst (handleSubmit_settle st (Resolved d))) = 0
       \<and> profiles (fst (handleSubmit_settle st (Resolved d))) =
           profiles (fst (handleSubmit_settle st' (Resolved d)))
       \<and> (linkedinUrl st \<noteq> [] \<and> sessionCookie st \<noteq> [] \<longrightarrow>
            fst (handleSubmit st (Resolved d)) = fst (handleSubmit_settle st (Resolved d)))"
  using assms
  by (simp add: handleSubmit_settle_def handleSubmit_def handleSubmit_begin_def
      normalize_profile_def)

theorem submit_success_replaces_witness:
  "profiles (fst (handleSubmit sample_state
      (Resolved \<lparr>error = None, profile = Some (Single other_profile)\<rparr>))) = [Some other_profile]
   \<and> currentProfileIndex (fst (handleSubmit sample_state
      (Resolved \<lparr>error = None, profile = Some (Single other_profile)\<rparr>))) = 0
   \<and> profiles (fst (handleSubmit sample_state
      (Resolved \<lparr>error = None,
                 profile = Some (Many [other_profile, sample_profile, other_profile])\<rparr>)))
      = [Some other_profile, Some sample_profile, Some other_profile]
   \<and> currentProfileIndex sample_state = 1"
proof -
  have ne: "linkedinUrl sample_state \<noteq> [] \<and> sessionCookie sample_state \<noteq> []"
    by (simp add: sample_state_def)
  have idx: "currentProfileIndex sample_state = 1"
    by (simp add: sample_state_def)
  from ne idx
    submit_success_replaces
      [where d = "\<lparr>error = None, profile = Some (Single other_profile)\<rparr>"
         and p = other_profile and st = sample_state]
    submit_success_replaces
      [where d = "\<lparr>error = None,
                    profile = Some (Many [other_profile, sample_profile, other_profile])\<rparr>"
         and ps = "[other_profile, sample_profile, other_profile]" and st = sample_state]
  show ?thesis by simp
qed

text \<open>
  The claim C4 as it is written speaks of every payload that carries an error field. The
  test in the code is \<^verbatim>\<open>if (data.error)\<close>, and the empty string is falsy: the payload
  \<^verbatim>\<open>{error: ""}\<close> takes the success branch. From two stored profiles at index 1 the list
  becomes \<^verbatim>\<open>[undefined]\<close>, the index 0, and the toast is the success one.
\<close>

theorem error_field_empty_counterexample:
  "error \<lparr>error = Some [], profile = None\<rparr> = Some []
   \<and> profiles sample_state = [Some sample_profile, Some other_profile]
   \<and> currentProfileIndex sample_state = 1
   \<and> profiles (fst (handleSubmit sample_state (Resolved \<lparr>error = Some [], profile = None\<rparr>)))
       = [None]
   \<and> currentProfileIndex
        (fst (handleSubmit sample_state (Resolved \<lparr>error = Some [], profile = None\<rparr>))) = 0
   \<and> filter is_Toast
        (snd (handleSubmit sample_state (Resolved \<lparr>error = Some [], profile = None\<rparr>)))
       = [Toast_success ''Profiles scraped successfully!'']"
  by (simp add: sample_state_def handleSubmit_def handleSubmit_begin_def
      handleSubmit_settle_def normalize_profile_def)

text \<open>
  C4, for the failures the code tells apart. When the request fails in transport, or the
  response has an error field that is truthy (a non-empty string), the only cell written
  is \<^verbatim>\<open>isRunning\<close> (back to false): the profile list and the carousel index are as
  before, and exactly one toast is shown, an error toast carrying the fixed failure text
  or the error field's text. With both text inputs filled in, the same holds of a whole
  run of \<^verbatim>\<open>handleSubmit\<close>.
\<close>

theorem failure_keeps_results:
  assumes "outcome = Rejected \<or> (\<exists>d. outcome = Resolved d \<and> truthy (error d))"
  shows "fst (handleSubmit_settle st outcome) = st\<lparr>isRunning := False\<rparr>
       \<and> profiles (fst (handleSubmit_settle st outcome)) = profiles st
       \<and> currentProfileIndex (fst (handleSubmit_settle st outcome)) = currentProfileIndex st
       \<and> filter is_Toast (snd (handleSubmit_settle st outcome)) =
           [Toast_error (case outcome of
                           Rejected \<Rightarrow> ''Failed to scrape profiles''
                         | Resolved d \<Rightarrow> js_or (error d) [])]
       \<and> (linkedinUrl st \<noteq> [] \<and> sessionCookie st \<noteq> [] \<longrightarrow>
            fst (handleSubmit st outcome) = st\<lparr>isRunning := False\<rparr>
            \<and> filter is_Toast (snd (handleSubmit st outcome)) =
                filter is_Toast (snd (handleSubmit_settle st outcome)))"
  using assms
  by (auto simp: handleSubmit_settle_def handleSubmit_def handleSubmit_begin_def truthy_def
      js_or_def split: option.splits)

theorem failure_keeps_results_witness:
  "handleSubmit sample_state Rejected =
     (sample_state,
      [Fetch endpoint
         \<lparr>url = ''https://www.linkedin.com/search/results/people/'', session_cookie = ''li_at'',
          limit = 2\<rparr>,
       Toast_error ''Failed to scrape profiles'', Console_error])
   \<and> fst (handleSubmit sample_state
        (Resolved \<lparr>error = Some ''Invalid session cookie'', profile = None\<rparr>)) = sample_state
   \<and> filter is_Toast (snd (handleSubmit sample_state
        (Resolved \<lparr>error = Some ''Invalid session cookie'', profile = None\<rparr>)))
       = [Toast_error ''Invalid session cookie'']"
proof -
  have ne: "linkedinUrl sample_state \<noteq> [] \<and> sessionCookie sample_state \<noteq> []"
    and nr: "sample_state\<lparr>isRunning := False\<rparr> = sample_state"
    by (simp_all add: sample_state_def)
  have t: "truthy (error \<lparr>error = Some ''Invalid session cookie'', profile = None\<rparr>)"
    by (simp add: truthy_def)
  have fx: "snd (handleSubmit sample_state Rejected) =
     [Fetch endpoint
         \<lparr>url = ''https://www.linkedin.com/search/results/people/'', session_cookie = ''li_at'',
          limit = 2\<rparr>,
       Toast_error ''Failed to scrape profiles'', Console_error]"
    by (simp add: sample_state_def handleSubmit_def handleSubmit_begin_def
        handleSubmit_settle_def)
  from ne nr t fx
    failure_keeps_results [where outcome = Rejected and st = sample_state]
    failure_keeps_results [where st = sample_state
      and outcome = "Resolved \<lparr>error = Some ''Invalid session cookie'', profile = None\<rparr>"]
  show ?thesis by (simp add: js_or_def prod_eq_iff)
qed

text \<open>
  C5. When the search URL or the session cookie is the empty string, \<^verbatim>\<open>handleSubmit\<close>
  ends at its first test: its only effect is the validation toast, so no request is made,
  and the state (profile list and carousel index included) is the one it started from.
  As an event of the interface, such a submit leaves the number of outstanding requests
  as it was.
\<close>

theorem empty_field_blocks_submit:
  assumes "linkedinUrl st = [] \<or> sessionCookie st = []"
  shows "handleSubmit st outcome = (st, [Toast_error ''Please fill in all required fields''])
       \<and> handleSubmit_begin st = (st, [Toast_error ''Please fill in all required fields''])
       \<and> step \<lparr>app = st, in_flight = n\<rparr> Submit =
           (if isRunning st then None
            else Some (\<lparr>app = st, in_flight = n\<rparr>,
                       [Toast_error ''Please fill in all required fields'']))"
  using assms by (auto simp: handleSubmit_def handleSubmit_begin_def step_def)

theorem empty_field_blocks_submit_witness:
  "handleSubmit (sample_state\<lparr>sessionCookie := []\<rparr>)
       (Resolved \<lparr>error = None, profile = Some (Single other_profile)\<rparr>) =
     (sample_state\<lparr>sessionCookie := []\<rparr>, [Toast_error ''Please fill in all required fields''])
   \<and> handleSubmit initial_state Rejected =
     (initial_state, [Toast_error ''Please fill in all required fields''])
   \<and> step initial_ui Submit =
       Some (initial_ui, [Toast_error ''Please fill in all required fields''])"
proof -
  have a: "linkedinUrl (sample_state\<lparr>sessionCookie := []\<rparr>) = []
           \<or> sessionCookie (sample_state\<lparr>sessionCookie := []\<rparr>) = []"
    and b: "linkedinUrl initial_state = [] \<or> sessionCookie initial_state = []"
    and c: "\<not> isRunning initial_state"
    by (simp_all add: initial_state_def)
  from c empty_field_blocks_submit [OF a] empty_field_blocks_submit [OF b, where n = 0]
  show ?thesis by (simp add: initial_ui_def)
qed

lemma number_input_valid_iff: "number_input_valid v \<longleftrightarrow> v \<in> {1, 2, 3, 4, 5}"
proof
  assume "number_input_valid v"
  then have lo: "1 \<le> v" and hi: "v \<le> 5" and w: "real_of_int \<lfloor>v - 1\<rfloor> = v - 1"
    by (simp_all add: number_input_valid_def maxProfiles_min_def maxProfiles_max_def)
  define k where "k = \<lfloor>v - 1\<rfloor>"
  from w have v: "v = real_of_int k + 1"
    unfolding k_def by linarith
  with lo hi have "0 \<le> k" and "k \<le> 4"
    by simp_all
  then have "k = 0 \<or> k = 1 \<or> k = 2 \<or> k = 3 \<or> k = 4"
    by arith
  with v show "v \<in> {1, 2, 3, 4, 5}"
    by auto
next
  assume "v \<in> {1, 2, 3, 4, 5}"
  then show "number_input_valid v"
    by (auto simp: number_input_valid_def maxProfiles_min_def maxProfiles_max_def)
qed

text \<open>
  A submit that the form lets through to the handler is a \<open>Submit\<close> event of the
  transition system, with the same state and effects: what holds of every run holds of
  the submits of the form.
\<close>

lemma submit_form_within_step:
  "submit_form valid_url (app u) = Handler_ran r \<Longrightarrow>
     step u Submit =
       Some (\<lparr>app = fst r, in_flight = in_flight u + length (filter is_Fetch (snd r))\<rparr>, snd r)"
  by (auto simp: submit_form_def step_def split: if_splits option.splits prod.splits)

text \<open>
  C6. When the max profile count is not one of the integers 1 to 5, a submit of the form
  never reaches \<^verbatim>\<open>handleSubmit\<close>: with the button enabled the browser shows a validation
  message (at the count, or at the URL or the cookie when that fails first), no effect
  of the handler happens, so no request is sent, and the state is unchanged; with the
  button disabled nothing happens at all. Against that, with a count from 1 to 5, a valid
  URL, a cookie and the button enabled, the handler runs and sends the one request,
  whose \<^verbatim>\<open>limit\<close> is the count.
\<close>

theorem invalid_count_blocks_submit:
  "(maxProfiles st \<notin> {1, 2, 3, 4, 5} \<longrightarrow>
      submit_form valid_url st =
        (if isRunning st then Button_disabled
         else Validation_message
                (if linkedinUrl st = [] \<or> \<not> valid_url (linkedinUrl st) then ''linkedinUrl''
                 else if sessionCookie st = [] then ''sessionCookie''
                 else ''maxProfiles''))
      \<and> effects_of (submit_form valid_url st) = []
      \<and> state_after st (submit_form valid_url st) = st)
   \<and> (maxProfiles st \<in> {1, 2, 3, 4, 5} \<and> linkedinUrl st \<noteq> [] \<and> valid_url (linkedinUrl st)
      \<and> sessionCookie st \<noteq> [] \<and> \<not> isRunning st \<longrightarrow>
      submit_form valid_url st =
        Handler_ran
          (st\<lparr>isRunning := True\<rparr>,
           [Fetch endpoint
              \<lparr>url = linkedinUrl st, session_cookie = sessionCookie st,
               limit = maxProfiles st\<rparr>]))"
proof -
  have a: "maxProfiles st \<notin> {1, 2, 3, 4, 5} \<Longrightarrow>
      submit_form valid_url st =
        (if isRunning st then Button_disabled
         else Validation_message
                (if linkedinUrl st = [] \<or> \<not> valid_url (linkedinUrl st) then ''linkedinUrl''
                 else if sessionCookie st = [] then ''sessionCookie''
                 else ''maxProfiles''))"
    using number_input_valid_iff [of "maxProfiles st"]
    by (simp add: submit_form_def first_invalid_def)
  have b: "maxProfiles st \<in> {1, 2, 3, 4, 5} \<Longrightarrow> linkedinUrl st \<noteq> [] \<Longrightarrow>
      valid_url (linkedinUrl st) \<Longrightarrow> sessionCookie st \<noteq> [] \<Longrightarrow> \<not> isRunning st \<Longrightarrow>
      submit_form valid_url st =
        Handler_ran
          (st\<lparr>isRunning := True\<rparr>,
           [Fetch endpoint
              \<lparr>url = linkedinUrl st, session_cookie = sessionCookie st,
               limit = maxProfiles st\<rparr>])"
    using number_input_valid_iff [of "maxProfiles st"]
    by (simp add: submit_form_def first_invalid_def handleSubmit_begin_def)
  from a b show ?thesis
    by (auto simp del: insert_iff)
qed

text \<open>
  With the form otherwise filled in, the counts 7 and 2.5 stop at the count's own
  message; on the empty form a count of 0 stops at the URL's; the count 3 goes through,
  and the request carries it.
\<close>

theorem invalid_count_blocks_submit_witness:
  "submit_form (\<lambda>u. take 8 u = ''https://'') (sample_state\<lparr>maxProfiles := 7\<rparr>) =
     Validation_message ''maxProfiles''
   \<and> submit_form (\<lambda>u. take 8 u = ''https://'') (sample_state\<lparr>maxProfiles := 5 / 2\<rparr>) =
     Validation_message ''maxProfiles''
   \<and> submit_form (\<lambda>u. take 8 u = ''https://'') (initial_state\<lparr>maxProfiles := 0\<rparr>) =
     Validation_message ''linkedinUrl''
   \<and> submit_form (\<lambda>u. take 8 u = ''https://'') (sample_state\<lparr>maxProfiles := 3\<rparr>) =
     Handler_ran
       (sample_state\<lparr>maxProfiles := 3, isRunning := True\<rparr>,
        [Fetch endpoint
           \<lparr>url = ''https://www.linkedin.com/search/results/people/'', session_cookie = ''li_at'',
            limit = 3\<rparr>])"
proof -
  have a: "maxProfiles (sample_state\<lparr>maxProfiles := 7\<rparr>) \<notin> {1, 2, 3, 4, 5}"
    and b: "maxProfiles (sample_state\<lparr>maxProfiles := 5 / 2\<rparr>) \<notin> {1, 2, 3, 4, 5}"
    and c: "maxProfiles (initial_state\<lparr>maxProfiles := 0\<rparr>) \<notin> {1, 2, 3, 4, 5}"
    and d: "maxProfiles (sample_state\<lparr>maxProfiles := 3\<rparr>) \<in> {1, 2, 3, 4, 5}"
    by simp_all
  from a b c d
    invalid_count_blocks_submit
      [where st = "sample_state\<lparr>maxProfiles := 7\<rparr>"
         and valid_url = "\<lambda>u. take 8 u = ''https://''"]
    invalid_count_blocks_submit
      [where st = "sample_state\<lparr>maxProfiles := 5 / 2\<rparr>"
         and valid_url = "\<lambda>u. take 8 u = ''https://''"]
    invalid_count_blocks_submit
      [where st = "initial_state\<lparr>maxProfiles := 0\<rparr>"
         and valid_url = "\<lambda>u. take 8 u = ''https://''"]
    invalid_count_blocks_submit
      [where st = "sample_state\<lparr>maxProfiles := 3\<rparr>"
         and valid_url = "\<lambda>u. take 8 u = ''https://''"]
  show ?thesis
    by (simp add: sample_state_def initial_state_def)
qed

section \<open>Export\<close>

lemma js_or_empty: "js_or v [] = (case v of None \<Rightarrow> [] | Some s \<Rightarrow> s)"
  by (simp add: js_or_def split: option.splits)

lemma export_rows_Some:
  "export_rows (map Some ps) =
     Inr (map (\<lambda>p. [(''name'', case name p of None \<Rightarrow> [] | Some s \<Rightarrow> s),
                     (''profile_url'', case profile_url p of None \<Rightarrow> [] | Some s \<Rightarrow> s),
                     (''title'', case profile.title p of None \<Rightarrow> [] | Some s \<Rightarrow> s),
                     (''location'', case profile.location p of None \<Rightarrow> [] | Some s \<Rightarrow> s)]) ps)"
  by (induction ps) (simp_all add: export_row_def js_or_empty)

text \<open>
  C3. With an empty profile list \<^verbatim>\<open>exportToExcel\<close> only shows the notice: no file is
  written. With a non-empty list of profiles (every entry a profile object) its only
  effect is one file, \<^verbatim>\<open>profiles.xlsx\<close>, whose workbook has the single sheet
  \<^verbatim>\<open>Profiles\<close> made from one row per profile in list order; a row has exactly the keys
  \<^verbatim>\<open>name\<close>, \<^verbatim>\<open>profile_url\<close>, \<^verbatim>\<open>title\<close>, \<^verbatim>\<open>location\<close>, a missing field giving the empty
  string. A row does not depend on the experiences, the education or the evaluation of
  its profile.
\<close>

theorem export_sheet:
  "(profiles st = [] \<longrightarrow> exportToExcel st = (st, [Toast_error ''No profiles to export'']))
   \<and> (ps \<noteq> [] \<and> profiles st = map Some ps \<longrightarrow>
        exportToExcel st =
          (st, [WriteFile
                  [(''Profiles'',
                    Json_to_sheet
                      (map (\<lambda>p. [(''name'', case name p of None \<Rightarrow> [] | Some s \<Rightarrow> s),
                                  (''profile_url'',
                                   case profile_url p of None \<Rightarrow> [] | Some s \<Rightarrow> s),
                                  (''title'', case profile.title p of None \<Rightarrow> [] | Some s \<Rightarrow> s),
                                  (''location'',
                                   case profile.location p of None \<Rightarrow> [] | Some s \<Rightarrow> s)])
                         ps))]
                  ''profiles.xlsx'']))
   \<and> export_row (Some (p\<lparr>experiences := xs, profile.education := eds, evaluation := ev\<rparr>)) =
       export_row (Some p)"
  by (simp add: exportToExcel_def export_rows_Some book_new_def book_append_sheet_def
      export_row_def)

text \<open>
  Two profiles, the first without a location and with an empty title, the second without
  a profile URL; the first has an experience record, which no row shows.
\<close>

theorem export_sheet_witness:
  "exportToExcel (sample_state\<lparr>profiles := []\<rparr>) =
     (sample_state\<lparr>profiles := []\<rparr>, [Toast_error ''No profiles to export''])
   \<and> exportToExcel sample_state =
       (sample_state,
        [WriteFile
           [(''Profiles'',
             Json_to_sheet
               [[(''name'', ''Ada''), (''profile_url'', ''https://www.linkedin.com/in/ada''),
                 (''title'', []), (''location'', [])],
                [(''name'', ''Bo''), (''profile_url'', []),
                 (''title'', ''Analyst''), (''location'', ''Oslo'')]])]
           ''profiles.xlsx''])"
proof -
  have a: "profiles (sample_state\<lparr>profiles := []\<rparr>) = []"
    by simp
  have b: "[sample_profile, other_profile] \<noteq> [] \<and>
           profiles sample_state = map Some [sample_profile, other_profile]"
    by (simp add: sample_state_def)
  from a b export_sheet [where st = "sample_state\<lparr>profiles := []\<rparr>"]
    export_sheet [where st = sample_state and ps = "[sample_profile, other_profile]"]
  show ?thesis by (simp add: sample_profile_def other_profile_def)
qed

section \<open>Rendering\<close>

lemma texts_paragraph_if: "concat (map texts (paragraph_if v)) = shown v"
  by (simp add: paragraph_if_def shown_def split: option.splits)

lemma texts_bullet_list:
  "concat (map texts (bullet_list v)) = (case v of None \<Rightarrow> [] | Some ds \<Rightarrow> ds)"
  by (simp add: bullet_list_def comp_def split: option.splits)

lemma texts_text_child:
  "concat (map texts (text_child v)) = (case v of None \<Rightarrow> [] | Some s \<Rightarrow> [s])"
  by (simp add: text_child_def split: option.splits)

lemma texts_render_role:
  "texts (render_role r) =
     (case role.title r of None \<Rightarrow> [] | Some s \<Rightarrow> [s])
     @ shown (role.dateRange r) @ shown (role.location r)
     @ (case role.description r of None \<Rightarrow> [] | Some ds \<Rightarrow> ds)"
  by (simp add: render_role_def texts_paragraph_if texts_bullet_list texts_text_child)

lemma texts_render_flat:
  "texts (render_flat ex) =
     shown (experience.title ex) @ shown (experience.dateRange ex)
     @ shown (experience.location ex)
     @ (case experience.description ex of None \<Rightarrow> [] | Some ds \<Rightarrow> ds)"
  by (simp add: render_flat_def texts_paragraph_if texts_bullet_list)

text \<open>
  C7. An experience record whose \<^verbatim>\<open>roles\<close> list is present renders as its company
  followed by one block per role, in order; the text shown is the company and then each
  role's title, date range, location and description lines (a date range or location
  that is missing or empty shows nothing). Its own flat title, date range, location and
  description play no part: changing them changes nothing in what is rendered. A record
  whose \<^verbatim>\<open>roles\<close> is absent renders as its company followed by its flat fields. Which
  of the two it is depends on the presence of \<^verbatim>\<open>roles\<close> alone.
\<close>

theorem experience_shapes_exclusive:
  "(roles ex = Some rs \<longrightarrow>
      render_experience ex =
        Element ''div''
          [Element ''div''
             [Element ''h5'' [Text (company ex)], Element ''div'' (map render_role rs)]]
      \<and> texts (render_experience ex) =
          company ex #
          concat (map (\<lambda>r. (case role.title r of None \<Rightarrow> [] | Some s \<Rightarrow> [s])
                           @ shown (role.dateRange r) @ shown (role.location r)
                           @ (case role.description r of None \<Rightarrow> [] | Some ds \<Rightarrow> ds)) rs)
      \<and> render_experience
          (ex\<lparr>experience.title := t, experience.dateRange := dr,
              experience.location := l, experience.description := ds\<rparr>) =
          render_experience ex)
   \<and> (roles ex = None \<longrightarrow>
        render_experience ex =
          Element ''div'' [Element ''div'' [Element ''h5'' [Text (company ex)], render_flat ex]]
        \<and> texts (render_experience ex) =
            company ex #
            shown (experience.title ex) @ shown (experience.dateRange ex)
            @ shown (experience.location ex)
            @ (case experience.description ex of None \<Rightarrow> [] | Some ds \<Rightarrow> ds))"
proof -
  have "texts \<circ> render_role =
          (\<lambda>r. (case role.title r of None \<Rightarrow> [] | Some s \<Rightarrow> [s])
               @ shown (role.dateRange r) @ shown (role.location r)
               @ (case role.description r of None \<Rightarrow> [] | Some ds \<Rightarrow> ds))"
    by (rule ext) (simp add: texts_render_role)
  then show ?thesis
    by (simp add: render_experience_def texts_render_flat)
qed

text \<open>
  One record with a role and with flat fields of its own: only the role is shown. The
  same record without \<^verbatim>\<open>roles\<close>: only the flat fields are shown.
\<close>

theorem experience_shapes_exclusive_witness:
  "texts (render_experience sample_experience) =
     [''Acme'', ''Lead'', ''2020 - 2023'', ''Ran the team'']
   \<and> texts (render_experience (sample_experience\<lparr>roles := None\<rparr>)) =
       [''Acme'', ''Flat title'', ''2018 - 2023'', ''Pune'', ''Flat text'']
   \<and> render_experience
        (sample_experience\<lparr>experience.title := None, experience.dateRange := None,
                           experience.location := None, experience.description := None\<rparr>) =
       render_experience sample_experience"
proof -
  have a: "roles sample_experience = Some [sample_role]"
    and b: "roles (sample_experience\<lparr>roles := None\<rparr>) = None"
    by (simp_all add: sample_experience_def)
  from a b
    experience_shapes_exclusive [where ex = sample_experience and rs = "[sample_role]"
      and t = None and dr = None and l = None and ds = None]
    experience_shapes_exclusive [where ex = "sample_experience\<lparr>roles := None\<rparr>"]
  show ?thesis
    by (simp add: sample_experience_def sample_role_def shown_def render_experience_def
        render_role_def render_flat_def text_child_def paragraph_if_def bullet_list_def)
qed

section \<open>Invariants of the interface\<close>

lemma exportToExcel_state: "fst (exportToExcel st) = st"
  by (simp add: exportToExcel_def split: sum.splits)

lemma carousel_inv_goToPrevious: "carousel_inv st \<Longrightarrow> carousel_inv (goToPrevious st)"
  by (auto simp: carousel_inv_def goToPrevious_def)

lemma carousel_inv_goToNext: "carousel_inv st \<Longrightarrow> carousel_inv (goToNext st)"
  by (auto simp: carousel_inv_def goToNext_def)

lemma carousel_inv_begin: "carousel_inv st \<Longrightarrow> carousel_inv (fst (handleSubmit_begin st))"
  by (simp add: carousel_inv_def handleSubmit_begin_def)

lemma carousel_inv_settle:
  "carousel_inv st \<Longrightarrow> carousel_inv (fst (handleSubmit_settle st outcome))"
  by (cases outcome)
     (auto simp: carousel_inv_def handleSubmit_settle_def normalize_profile_def Let_def
           split: option.splits profile_payload.splits)

lemma carousel_inv_handleSubmit:
  "carousel_inv st \<Longrightarrow> carousel_inv (fst (handleSubmit st outcome))"
  by (simp add: handleSubmit_def carousel_inv_begin carousel_inv_settle)

lemma step_carousel_inv:
  assumes "carousel_inv (app u)" and "step u ev = Some (u', es)"
  shows "carousel_inv (app u')"
proof (cases ev)
  case Submit
  with assms carousel_inv_begin [of "app u"] show ?thesis
    by (auto simp: step_def split: if_splits prod.splits)
next
  case (Settle outcome)
  with assms carousel_inv_settle [of "app u" outcome] show ?thesis
    by (auto simp: step_def split: if_splits prod.splits)
next
  case Click_previous
  with assms show ?thesis by (auto simp: step_def carousel_inv_goToPrevious)
next
  case Click_next
  with assms show ?thesis by (auto simp: step_def carousel_inv_goToNext)
next
  case Click_export
  with assms exportToExcel_state [of "app u"] show ?thesis
    by (auto simp: step_def split: prod.splits)
next
  case (Change_linkedinUrl v)
  with assms show ?thesis by (auto simp: step_def carousel_inv_def)
next
  case (Change_sessionCookie v)
  with assms show ?thesis by (auto simp: step_def carousel_inv_def)
next
  case (Change_maxProfiles v)
  with assms show ?thesis by (auto simp: step_def carousel_inv_def)
qed

lemma run_carousel_inv:
  "carousel_inv (app u) \<Longrightarrow> run u evs = Some u' \<Longrightarrow> carousel_inv (app u')"
proof (induction evs arbitrary: u)
  case Nil
  then show ?case by simp
next
  case (Cons ev evs)
  from Cons.prems(2) obtain u1 es
    where s: "step u ev = Some (u1, es)" and r: "run u1 evs = Some u'"
    by (auto split: option.splits)
  from step_carousel_inv [OF Cons.prems(1) s] r show ?case
    by (rule Cons.IH)
qed

lemma carousel_inv_initial: "carousel_inv initial_state"
  by (simp add: carousel_inv_def initial_state_def)

text \<open>
  C9. The carousel index is at least 0 and, whenever the profile list is non-empty, at
  most its length minus one (\<open>carousel_inv\<close>). Previous, next, export, the settling of a
  submission (success or failure) and a whole run of \<^verbatim>\<open>handleSubmit\<close> each keep it; it
  holds of the initial state (empty list, index 0); so it holds of every state the
  interface reaches from the initial one, by any sequence of events.
\<close>

theorem carousel_index_invariant:
  "(carousel_inv st \<longrightarrow>
      carousel_inv (goToPrevious st) \<and> carousel_inv (goToNext st)
      \<and> carousel_inv (fst (exportToExcel st))
      \<and> carousel_inv (fst (handleSubmit_settle st outcome))
      \<and> carousel_inv (fst (handleSubmit st outcome)))
   \<and> carousel_inv initial_state
   \<and> (run initial_ui evs = Some u \<longrightarrow> carousel_inv (app u))"
proof -
  have "carousel_inv (app initial_ui)"
    by (simp add: initial_ui_def carousel_inv_initial)
  then have "run initial_ui evs = Some u \<longrightarrow> carousel_inv (app u)"
    by (auto dest: run_carousel_inv)
  then show ?thesis
    by (simp add: carousel_inv_goToPrevious carousel_inv_goToNext exportToExcel_state
        carousel_inv_settle carousel_inv_handleSubmit carousel_inv_initial)
qed

text \<open>
  Fill in the form, submit, receive two profiles, press next twice and export: the index
  stops at 1, the last entry.
\<close>

theorem carousel_index_invariant_witness:
  "\<exists>u. run initial_ui
          [Change_linkedinUrl ''https://www.linkedin.com/search/results/people/'',
           Change_sessionCookie ''li_at'', Submit,
           Settle (Resolved \<lparr>error = None,
                             profile = Some (Many [sample_profile, other_profile])\<rparr>),
           Click_next, Click_next, Click_export] = Some u
       \<and> carousel_inv (app u) \<and> currentProfileIndex (app u) = 1
       \<and> length (profiles (app u)) = 2"
proof -
  obtain u where r: "run initial_ui
          [Change_linkedinUrl ''https://www.linkedin.com/search/results/people/'',
           Change_sessionCookie ''li_at'', Submit,
           Settle (Resolved \<lparr>error = None,
                             profile = Some (Many [sample_profile, other_profile])\<rparr>),
           Click_next, Click_next, Click_export] = Some u"
    and f: "currentProfileIndex (app u) = 1" "length (profiles (app u)) = 2"
    by (simp add: initial_ui_def initial_state_def step_def handleSubmit_begin_def goToNext_def
        handleSubmit_settle_def normalize_profile_def exportToExcel_def export_row_def)
  from carousel_index_invariant [where u = u and evs =
         "[Change_linkedinUrl ''https://www.linkedin.com/search/results/people/'',
           Change_sessionCookie ''li_at'', Submit,
           Settle (Resolved \<lparr>error = None,
                             profile = Some (Many [sample_profile, other_profile])\<rparr>),
           Click_next, Click_next, Click_export]"] r f
  show ?thesis by auto
qed

lemma step_flight_inv:
  assumes "flight_inv u" and "step u ev = Some (u', es)"
  shows "flight_inv u'"
proof (cases ev)
  case Submit
  with assms show ?thesis
    by (auto simp: step_def flight_inv_def handleSubmit_begin_def split: if_splits)
next
  case (Settle outcome)
  with assms show ?thesis
    by (cases outcome)
       (auto simp: step_def flight_inv_def handleSubmit_settle_def Let_def
             split: if_splits option.splits)
next
  case Click_export
  with assms exportToExcel_state [of "app u"] show ?thesis
    by (auto simp: step_def flight_inv_def split: prod.splits)
qed (use assms in \<open>auto simp: step_def flight_inv_def goToPrevious_def goToNext_def\<close>)

lemma run_flight_inv:
  "flight_inv u \<Longrightarrow> run u evs = Some u' \<Longrightarrow> flight_inv u'"
proof (induction evs arbitrary: u)
  case Nil
  then show ?case by simp
next
  case (Cons ev evs)
  from Cons.prems(2) obtain u1 es
    where s: "step u ev = Some (u1, es)" and r: "run u1 evs = Some u'"
    by (auto split: option.splits)
  from step_flight_inv [OF Cons.prems(1) s] r show ?case
    by (rule Cons.IH)
qed

lemma flight_inv_initial: "flight_inv initial_ui"
  by (simp add: flight_inv_def initial_ui_def initial_state_def)

text \<open>
  C8. In every state the interface reaches from the initial one, by any sequence of
  events: at most one request is outstanding; \<^verbatim>\<open>isRunning\<close> is true exactly when one
  is; while it is true the submit event cannot happen (the button is disabled); and a
  submit that does happen starts from no outstanding request, sends at most one, and
  leaves \<^verbatim>\<open>isRunning\<close> true exactly when it sent one. So no second submission starts
  while one is in flight, and two requests are never outstanding together.
\<close>

theorem single_flight:
  assumes "run initial_ui evs = Some u"
  shows "in_flight u \<le> 1
       \<and> (isRunning (app u) \<longleftrightarrow> in_flight u = 1)
       \<and> (isRunning (app u) \<longrightarrow> step u Submit = None)
       \<and> (step u Submit = Some (u', es) \<longrightarrow>
            in_flight u = 0 \<and> in_flight u' = length (filter is_Fetch es) \<and> in_flight u' \<le> 1
            \<and> (isRunning (app u') \<longleftrightarrow> filter is_Fetch es \<noteq> []))"
proof -
  from assms have inv: "flight_inv u"
    by (rule run_flight_inv [OF flight_inv_initial])
  then have a: "in_flight u \<le> 1" and b: "isRunning (app u) \<longleftrightarrow> in_flight u = 1"
    by (simp_all add: flight_inv_def split: if_splits)
  have c: "isRunning (app u) \<longrightarrow> step u Submit = None"
    by (simp add: step_def)
  have d: "step u Submit = Some (u', es) \<longrightarrow>
            in_flight u = 0 \<and> in_flight u' = length (filter is_Fetch es) \<and> in_flight u' \<le> 1
            \<and> (isRunning (app u') \<longleftrightarrow> filter is_Fetch es \<noteq> [])"
    using inv
    by (auto simp: step_def flight_inv_def handleSubmit_begin_def split: if_splits)
  from a b c d show ?thesis by blast
qed

text \<open>
  Fill in the form and submit: one request is outstanding, the flag is up, and a second
  submit cannot happen, whatever else is clicked meanwhile.
\<close>

theorem single_flight_witness:
  "\<exists>u. run initial_ui
          [Change_linkedinUrl ''https://www.linkedin.com/search/results/people/'',
           Change_sessionCookie ''li_at'', Submit, Click_next] = Some u
       \<and> in_flight u = 1 \<and> isRunning (app u) \<and> step u Submit = None"
proof -
  obtain u where r: "run initial_ui
          [Change_linkedinUrl ''https://www.linkedin.com/search/results/people/'',
           Change_sessionCookie ''li_at'', Submit, Click_next] = Some u"
    and f: "isRunning (app u)"
    by (simp add: initial_ui_def initial_state_def step_def handleSubmit_begin_def goToNext_def)
  from single_flight [OF r] f r show ?thesis by auto
qed

end
